theory Spec2Isabelle
  imports Complex_Main
begin

section \<open>JavaScript values used by index.js\<close>

text \<open>
  A property that may be absent (\<open>undefined\<close> or \<open>null\<close>) is an \<open>option\<close>.
  \<open>js_or\<close> is the operator \<open>a || b\<close> on possibly absent strings: the left operand
  is taken when it is truthy, that is present and not the empty string.
\<close>

definition js_or :: "string option \<Rightarrow> string option \<Rightarrow> string option" where
  "js_or a b = (case a of None \<Rightarrow> b | Some s \<Rightarrow> (if s = [] then b else Some s))"

text \<open>\<open>a || 0\<close> on a possibly absent number: absent and \<open>0\<close> are both falsy.\<close>

definition js_or_zero :: "int option \<Rightarrow> int" where
  "js_or_zero a = (case a of None \<Rightarrow> 0 | Some v \<Rightarrow> (if v = 0 then 0 else v))"

text \<open>
  \<open>xs[i]\<close> on an array: the element when \<open>0 \<le> i < xs.length\<close>, \<open>undefined\<close>
  otherwise (JavaScript does not raise).
\<close>

definition js_index :: "'a list \<Rightarrow> int \<Rightarrow> 'a option" where
  "js_index xs i = (if 0 \<le> i \<and> i < int (length xs) then Some (xs ! nat i) else None)"

text \<open>\<open>xs.splice(i, 1)\<close> for an index inside the array: the array without position \<open>i\<close>.\<close>

definition splice1 :: "'a list \<Rightarrow> nat \<Rightarrow> 'a list" where
  "splice1 xs i = take i xs @ drop (Suc i) xs"

text \<open>\<open>a % b\<close>: the remainder of the division truncated towards zero.\<close>

definition js_rem :: "int \<Rightarrow> int \<Rightarrow> int" where
  "js_rem a b = sgn a * (\<bar>a\<bar> mod \<bar>b\<bar>)"

text \<open>The decimal text of an integer, as a template literal prints it.\<close>

definition digit_char :: "nat \<Rightarrow> char" where
  "digit_char d = ''0123456789'' ! d"

fun string_of_nat :: "nat \<Rightarrow> string" where
  "string_of_nat n =
     (if n < 10 then [digit_char n] else string_of_nat (n div 10) @ [digit_char (n mod 10)])"

declare string_of_nat.simps [simp del]

definition string_of_int :: "int \<Rightarrow> string" where
  "string_of_int i = (if i < 0 then CHR ''-'' # string_of_nat (nat (- i)) else string_of_nat (nat i))"

section \<open>msToNice\<close>

text \<open>
  \<^verbatim>\<open>
  function msToNice(ms) {
    const totalSeconds = Math.ceil(ms / 1000);
    const minutes = Math.floor(totalSeconds / 60);
    const seconds = totalSeconds % 60;
    if (minutes > 0) return `${minutes}m ${seconds}s`;
    return `${seconds}s`;
  }
  \<close>
  The argument is a whole number of milliseconds; \<open>Math.ceil(ms / 1000)\<close> is then
  \<open>- ((- ms) div 1000)\<close>, and \<open>Math.floor\<close> of a quotient is \<open>div\<close>.
\<close>

definition msToNice :: "int \<Rightarrow> string" where
  "msToNice ms =
     (let totalSeconds = - ((- ms) div 1000);
          minutes = totalSeconds div 60;
          seconds = js_rem totalSeconds 60
      in if minutes > 0 then string_of_int minutes @ ''m '' @ string_of_int seconds @ ''s''
         else string_of_int seconds @ ''s'')"

section \<open>Cooldown gate\<close>

text \<open>
  \<^verbatim>\<open>
  const DRAW_COOLDOWN = TEST_MODE ? 0 : 15 * 60 * 1000;
  const PACK_COOLDOWN = TEST_MODE ? 0 : 10 * 60 * 1000;
  const PICK_COOLDOWN = TEST_MODE ? 0 : 30 * 60 * 1000;
  \<close>
\<close>

definition DRAW_COOLDOWN :: "bool \<Rightarrow> int" where
  "DRAW_COOLDOWN TEST_MODE = (if TEST_MODE then 0 else 15 * 60 * 1000)"

definition PACK_COOLDOWN :: "bool \<Rightarrow> int" where
  "PACK_COOLDOWN TEST_MODE = (if TEST_MODE then 0 else 10 * 60 * 1000)"

definition PICK_COOLDOWN :: "bool \<Rightarrow> int" where
  "PICK_COOLDOWN TEST_MODE = (if TEST_MODE then 0 else 30 * 60 * 1000)"

section \<open>Data model\<close>

text \<open>
  A card definition, as \<open>loadCardsFromSupabase\<close> builds it:
  \<open>{ id, name, rarity, set, imageUrl }\<close>.
\<close>

record card =
  id_card :: string
  name_card :: string
  rarity :: string
  set_card :: string
  imageUrl :: string

text \<open>
  An inventory entry. The source writes entries in two shapes and reads both:
  \<open>{ cardId, obtainedAt, instance_id }\<close> (slash commands, pack button, pick button),
  \<open>{ card_id, obtained_at, instance_id }\<close> (text commands, draw button, rows loaded from
  the \<open>inventory\<close> table), and the trade handler writes all five properties. A property
  that an entry does not have reads as \<open>undefined\<close>, here \<open>None\<close>. No code and no
  column of the table gives an entry a property \<open>instanceId\<close>, so \<open>entry.instanceId\<close>
  is \<open>undefined\<close> on every entry.
\<close>

record entry =
  card_id :: "string option"
  cardId :: "string option"
  obtained_at :: "int option"
  obtainedAt :: "int option"
  instance_id :: "string option"

text \<open>\<open>entry.instance_id || entry.instanceId\<close>\<close>

definition entryInstanceId :: "entry \<Rightarrow> string option" where
  "entryInstanceId e = js_or (instance_id e) None"

text \<open>\<open>entry.card_id || entry.cardId\<close>\<close>

definition entryCardId :: "entry \<Rightarrow> string option" where
  "entryCardId e = js_or (card_id e) (cardId e)"

text \<open>
  The per-user object of \<open>userData\<close>. \<open>/reset_me\<close> stores an object without
  \<open>pickChoices\<close>, hence the option.
\<close>

record session =
  inventory :: "entry list"
  lastDraw :: int
  lastPack :: int
  lastPick :: int
  pickChoices :: "card list option"

type_synonym user_id = string

type_synonym cache = "user_id \<rightharpoonup> session"

subsection \<open>The durable store, as the code sees it\<close>

text \<open>
  An awaited Supabase call either rejects (\<open>Threw\<close>, control goes to \<open>catch\<close>),
  resolves to \<open>{ data: null, error }\<close> (\<open>Failed\<close> with the error's code), or resolves to
  \<open>{ data, error: null }\<close> (\<open>Returned\<close>). \<open>.single()\<close> on no row is
  \<open>Failed ''PGRST116''\<close>.
\<close>

datatype 'a reply = Threw | Failed string | Returned 'a

record user_row =
  last_draw :: "int option"
  last_pack :: "int option"
  last_pick :: "int option"

record store_replies =
  users_select :: "user_row reply"
  inventory_select :: "entry list reply"
  users_insert_throws :: bool

text \<open>What the store answers when the session of a user is loaded.\<close>

type_synonym store = "user_id \<Rightarrow> store_replies"

text \<open>The writes that the handlers issue to the store.\<close>

datatype db_write =
    InsertUser user_id
  | InsertInventory user_id "string option" int string
  | DeleteInventoryByInstance user_id string
  | DeleteInventoryByCard user_id "string option" "int option"
  | UpsertCooldowns user_id int int int

section \<open>getUserData\<close>

definition empty_data :: session where
  "empty_data = \<lparr>inventory = [], lastDraw = 0, lastPack = 0, lastPick = 0, pickChoices = Some []\<rparr>"

text \<open>
  The \<open>try\<close> block after both reads resolved: \<open>user\<close> is the row or \<open>null\<close>,
  \<open>inventory\<close> the rows or \<open>null\<close>.
\<close>

definition loaded_data :: "user_row option \<Rightarrow> entry list option \<Rightarrow> session" where
  "loaded_data user inventory_rows =
     \<lparr>inventory = (case inventory_rows of None \<Rightarrow> [] | Some rows \<Rightarrow> rows),
      lastDraw = (case user of None \<Rightarrow> 0 | Some u \<Rightarrow> js_or_zero (last_draw u)),
      lastPack = (case user of None \<Rightarrow> 0 | Some u \<Rightarrow> js_or_zero (last_pack u)),
      lastPick = (case user of None \<Rightarrow> 0 | Some u \<Rightarrow> js_or_zero (last_pick u)),
      pickChoices = Some []\<rparr>"

definition reply_data :: "'a reply \<Rightarrow> 'a option" where
  "reply_data r = (case r of Returned d \<Rightarrow> Some d | _ \<Rightarrow> None)"

text \<open>
  The session that a cache miss builds from the store's answers, with the writes issued.
  Any rejected call ends in the \<open>catch\<close> block, which stores the empty fallback.
\<close>

definition load_session :: "user_id \<Rightarrow> store_replies \<Rightarrow> session \<times> db_write list" where
  "load_session userId r =
     (if users_select r = Threw then (empty_data, [])
      else if inventory_select r = Threw then (empty_data, [])
      else let user = reply_data (users_select r);
               data = loaded_data user (reply_data (inventory_select r))
           in if user = None
              then (if users_insert_throws r then (empty_data, []) else (data, [InsertUser userId]))
              else (data, []))"

definition getUserData :: "store \<Rightarrow> user_id \<Rightarrow> cache \<Rightarrow> session \<times> cache \<times> db_write list" where
  "getUserData db userId userData =
     (case userData userId of
        Some data \<Rightarrow> (data, userData, [])
      | None \<Rightarrow>
          (let (data, ws) = load_session userId (db userId)
           in (data, userData(userId \<mapsto> data), ws)))"

section \<open>Cooldown checks\<close>

datatype gated = draw | pack | pick

definition cooldown_of :: "bool \<Rightarrow> gated \<Rightarrow> int" where
  "cooldown_of TEST_MODE a =
     (case a of draw \<Rightarrow> DRAW_COOLDOWN TEST_MODE
              | pack \<Rightarrow> PACK_COOLDOWN TEST_MODE
              | pick \<Rightarrow> PICK_COOLDOWN TEST_MODE)"

definition last_of :: "gated \<Rightarrow> session \<Rightarrow> int" where
  "last_of a data = (case a of draw \<Rightarrow> lastDraw data | pack \<Rightarrow> lastPack data | pick \<Rightarrow> lastPick data)"

text \<open>
  The check that opens every draw, pack and pick handler:
  \<^verbatim>\<open>
  const elapsed = now - data.lastDraw;
  if (elapsed < DRAW_COOLDOWN) {
    const remaining = DRAW_COOLDOWN - elapsed;
    return interaction.reply({ content: `... ${msToNice(remaining)} ...` });
  }
  \<close>
  \<open>check_cooldown\<close> is written on the cooldown and the stored timestamp; the result is
  \<open>Some remaining\<close> when the handler returns the wait message, \<open>None\<close> when it goes on.
\<close>

definition check_cooldown :: "int \<Rightarrow> int \<Rightarrow> int \<Rightarrow> int option" where
  "check_cooldown cooldown now lastAt =
     (let elapsed = now - lastAt
      in if elapsed < cooldown then Some (cooldown - elapsed) else None)"

definition cooldown_gate :: "bool \<Rightarrow> gated \<Rightarrow> int \<Rightarrow> session \<Rightarrow> int option" where
  "cooldown_gate TEST_MODE a now data = check_cooldown (cooldown_of TEST_MODE a) now (last_of a data)"

text \<open>What a handler answers.\<close>

datatype answer =
    NotAllowedChannel
  | Wait string
  | NoCards
  | Drew card
  | NotEnoughCards
  | PickOffered
  | NoActivePick
  | InvalidChoice
  | Picked card
  | InvalidIndex
  | Trashed entry
  | NotForYou
  | Declined
  | TradeFailed
  | TradeCompleted

section \<open>Drawing a card\<close>

text \<open>
  \<open>randomCard\<close> is the result of the call \<open>randomCard()\<close>, \<open>null\<close> exactly when no card
  is loaded, and \<open>instanceId\<close> the identifier that \<open>generateCardInstanceId\<close> drew.
  \<open>saveUserCooldowns\<close> upserts the three timestamps of the session.

  The text command \<open>kd\<close> pushes \<open>{ card_id, obtained_at, instance_id }\<close>:
  \<^verbatim>\<open>
  data.inventory.push({ card_id: card.id, obtained_at: now, instance_id: instanceId });
  data.lastDraw = now;
  await addCardToInventory(user.id, card.id, now, instanceId);
  await saveUserCooldowns(user.id, data);
  \<close>
\<close>

definition kd_draw ::
  "bool \<Rightarrow> int \<Rightarrow> card option \<Rightarrow> string \<Rightarrow> user_id \<Rightarrow> session \<Rightarrow> answer \<times> session \<times> db_write list" where
  "kd_draw TEST_MODE now randomCard instanceId userId data =
     (case cooldown_gate TEST_MODE draw now data of
        Some remaining \<Rightarrow> (Wait (msToNice remaining), data, [])
      | None \<Rightarrow>
          (case randomCard of
             None \<Rightarrow> (NoCards, data, [])
           | Some c \<Rightarrow>
               (Drew c,
                data\<lparr>inventory := inventory data @
                        [\<lparr>card_id = Some (id_card c), cardId = None, obtained_at = Some now,
                          obtainedAt = None, instance_id = Some instanceId\<rparr>],
                      lastDraw := now\<rparr>,
                [InsertInventory userId (Some (id_card c)) now instanceId,
                 UpsertCooldowns userId now (lastPack data) (lastPick data)])))"

text \<open>
  The slash command \<open>/draw\<close> first answers that no cards are configured when none is
  loaded, and pushes \<open>{ cardId, obtainedAt, instance_id }\<close>.
\<close>

definition slash_draw ::
  "bool \<Rightarrow> int \<Rightarrow> card option \<Rightarrow> string \<Rightarrow> user_id \<Rightarrow> session \<Rightarrow> answer \<times> session \<times> db_write list" where
  "slash_draw TEST_MODE now randomCard instanceId userId data =
     (case randomCard of
        None \<Rightarrow> (NoCards, data, [])
      | Some c \<Rightarrow>
          (case cooldown_gate TEST_MODE draw now data of
             Some remaining \<Rightarrow> (Wait (msToNice remaining), data, [])
           | None \<Rightarrow>
               (Drew c,
                data\<lparr>inventory := inventory data @
                        [\<lparr>card_id = None, cardId = Some (id_card c), obtained_at = None,
                          obtainedAt = Some now, instance_id = Some instanceId\<rparr>],
                      lastDraw := now\<rparr>,
                [InsertInventory userId (Some (id_card c)) now instanceId,
                 UpsertCooldowns userId now (lastPack data) (lastPick data)])))"

section \<open>Pick sessions\<close>

text \<open>
  \<open>/pick\<close> (and the text command): the cooldown check, three calls of \<open>randomCard\<close>
  whose non-null results are \<open>choices\<close>, then the session keeps the time and the choices.
\<close>

definition pick_command :: "bool \<Rightarrow> int \<Rightarrow> card list \<Rightarrow> session \<Rightarrow> answer \<times> session" where
  "pick_command TEST_MODE now choices data =
     (case cooldown_gate TEST_MODE pick now data of
        Some remaining \<Rightarrow> (Wait (msToNice remaining), data)
      | None \<Rightarrow>
          if length choices < 3 then (NotEnoughCards, data)
          else (PickOffered, data\<lparr>lastPick := now, pickChoices := Some choices\<rparr>))"

text \<open>
  The button handler \<open>btn_pick_<index>\<close>:
  \<^verbatim>\<open>
  if (!data.pickChoices || data.pickChoices.length === 0) return reply('No active pick session ...');
  const card = data.pickChoices[index];
  if (!card) return reply('Invalid choice.');
  const instanceId = generateCardInstanceId();
  data.inventory.push({ cardId: card.id, obtainedAt: now, instance_id: instanceId });
  await addCardToInventory(user.id, card.id, now, instanceId);
  data.pickChoices = [];
  \<close>
  \<open>instanceId\<close> is the identifier that \<open>generateCardInstanceId\<close> drew. A card object
  is truthy, so \<open>!card\<close> holds exactly when the index has no element.
\<close>

definition btn_pick :: "int \<Rightarrow> int \<Rightarrow> string \<Rightarrow> user_id \<Rightarrow> session \<Rightarrow> answer \<times> session \<times> db_write list" where
  "btn_pick index now instanceId userId data =
     (case pickChoices data of
        None \<Rightarrow> (NoActivePick, data, [])
      | Some choices \<Rightarrow>
          if length choices = 0 then (NoActivePick, data, [])
          else (case js_index choices index of
                  None \<Rightarrow> (InvalidChoice, data, [])
                | Some c \<Rightarrow>
                    (Picked c,
                     data\<lparr>inventory := inventory data @
                             [\<lparr>card_id = None, cardId = Some (id_card c), obtained_at = None,
                               obtainedAt = Some now, instance_id = Some instanceId\<rparr>],
                           pickChoices := Some []\<rparr>,
                     [InsertInventory userId (Some (id_card c)) now instanceId])))"

section \<open>/trash\<close>

text \<open>
  \<^verbatim>\<open>
  if (index < 0 || index >= data.inventory.length) return reply('Invalid index ...');
  const removed = data.inventory.splice(index, 1)[0];
  ... supabase.from('inventory').delete()
        .eq('user_id', user.id).eq('card_id', removed.cardId)
        .eq('obtained_at', removed.obtainedAt).limit(1);
  \<close>
\<close>

definition trash :: "int \<Rightarrow> user_id \<Rightarrow> session \<Rightarrow> answer \<times> session \<times> db_write list" where
  "trash index userId data =
     (if index < 0 \<or> index \<ge> int (length (inventory data)) then (InvalidIndex, data, [])
      else let removed = inventory data ! nat index
           in (Trashed removed,
               data\<lparr>inventory := splice1 (inventory data) (nat index)\<rparr>,
               [DeleteInventoryByCard userId (cardId removed) (obtainedAt removed)]))"

section \<open>Trade buttons\<close>

text \<open>\<open>Array.prototype.findIndex\<close>, with \<open>None\<close> for \<open>-1\<close>.\<close>

fun findIndex :: "('a \<Rightarrow> bool) \<Rightarrow> 'a list \<Rightarrow> nat option" where
  "findIndex P [] = None"
| "findIndex P (x # xs) = (if P x then Some 0 else map_option Suc (findIndex P xs))"

text \<open>
  The custom id \<open>trade_<action>_<senderId>_<receiverId>_<instanceId>\<close> that \<open>/trade\<close>
  attaches to its two buttons, split at the underscores.
\<close>

datatype trade_action = accept | decline

record trade_offer =
  action :: trade_action
  senderId :: user_id
  receiverId :: user_id
  instanceId :: string

text \<open>The entry that an accepted trade pushes onto the receiver's inventory.\<close>

definition traded_entry :: "string option \<Rightarrow> int \<Rightarrow> string \<Rightarrow> entry" where
  "traded_entry cid now iid =
     \<lparr>card_id = cid, cardId = cid, obtained_at = Some now, obtainedAt = Some now,
      instance_id = Some iid\<rparr>"

text \<open>
  The button branch of \<open>interactionCreate\<close> for a trade button. \<open>allowed\<close> is the result of
  \<open>isAllowedChannel\<close>, \<open>userId\<close> the user who pressed the button, \<open>now\<close> the clock at the
  push. \<open>senderData\<close> and \<open>receiverData\<close> are the objects of the cache; when both ids are
  the same they are one object, and the push acts on the spliced inventory.
\<close>

definition trade_button ::
  "store \<Rightarrow> bool \<Rightarrow> int \<Rightarrow> user_id \<Rightarrow> trade_offer \<Rightarrow> cache \<Rightarrow> answer \<times> cache \<times> db_write list" where
  "trade_button db allowed now userId offer userData =
     (if \<not> allowed then (NotAllowedChannel, userData, [])
      else
        let (data, ud1, w1) = getUserData db userId userData
        in if userId \<noteq> receiverId offer then (NotForYou, ud1, w1)
           else if action offer = decline then (Declined, ud1, w1)
           else
             let (senderData, ud2, w2) = getUserData db (senderId offer) ud1;
                 (receiverData, ud3, w3) = getUserData db (receiverId offer) ud2
             in case findIndex (\<lambda>e. entryInstanceId e = Some (instanceId offer)) (inventory senderData) of
                  None \<Rightarrow> (TradeFailed, ud3, w1 @ w2 @ w3)
                | Some cardIndex \<Rightarrow>
                    let cardEntry = inventory senderData ! cardIndex;
                        cid = entryCardId cardEntry;
                        senderData' = senderData\<lparr>inventory := splice1 (inventory senderData) cardIndex\<rparr>;
                        ud4 = ud3(senderId offer \<mapsto> senderData');
                        receiverNow = (if receiverId offer = senderId offer then senderData' else receiverData);
                        receiverData' = receiverNow\<lparr>inventory := inventory receiverNow @
                                           [traded_entry cid now (instanceId offer)]\<rparr>;
                        ud5 = ud4(receiverId offer \<mapsto> receiverData')
                    in (TradeCompleted, ud5,
                        w1 @ w2 @ w3 @
                        [DeleteInventoryByInstance (senderId offer) (instanceId offer),
                         InsertInventory (receiverId offer) cid now (instanceId offer)]))"

section \<open>Image caches\<close>

type_synonym url = string

text \<open>A decoded image and an encoded PNG, as bytes.\<close>

type_synonym image = string

type_synonym buffer = string

text \<open>
  \<open>imageCache\<close>, \<open>combinedImageCache\<close>, and the requests sent to the network so far.
\<close>

record image_state =
  imageCache :: "url \<rightharpoonup> image"
  combinedImageCache :: "string \<rightharpoonup> buffer"
  requests :: "url list"

text \<open>
  \<open>net url\<close> is what \<open>axios.get\<close> followed by \<open>loadImage\<close> gives: the decoded image, or
  \<open>None\<close> when either rejects. The result of \<open>fetchAndCacheImage\<close> is \<open>None\<close> when
  the call rejects.
\<close>

definition fetchAndCacheImage :: "(url \<Rightarrow> image option) \<Rightarrow> url \<Rightarrow> image_state \<Rightarrow> image option \<times> image_state" where
  "fetchAndCacheImage net u st =
     (case imageCache st u of
        Some img \<Rightarrow> (Some img, st)
      | None \<Rightarrow>
          (case net u of
             None \<Rightarrow> (None, st\<lparr>requests := requests st @ [u]\<rparr>)
           | Some img \<Rightarrow> (Some img, st\<lparr>imageCache := (imageCache st)(u \<mapsto> img),
                                       requests := requests st @ [u]\<rparr>)))"

text \<open>
  \<open>combineCardImages\<close>. \<open>Promise.all\<close> receives the three promises of
  \<open>fetchAndCacheImage\<close>, each of which has run up to its first \<open>await\<close>: the three cache
  tests see the cache as it was, and every miss sends its request. \<open>render\<close> is the canvas
  drawing and \<open>toBuffer\<close>, \<open>None\<close> when it throws. Any rejection is caught and the result is
  \<open>null\<close>, here \<open>None\<close>. The state returned is the one reached when the requests have
  settled; the network answers a URL the same way within one call.
\<close>

definition settle :: "(url \<Rightarrow> image option) \<Rightarrow> (url \<rightharpoonup> image) \<Rightarrow> url \<Rightarrow> (url \<rightharpoonup> image)" where
  "settle net m u = (case net u of None \<Rightarrow> m | Some img \<Rightarrow> m(u \<mapsto> img))"

definition combineCardImages ::
  "(url \<Rightarrow> image option) \<Rightarrow> (image \<Rightarrow> image \<Rightarrow> image \<Rightarrow> buffer option) \<Rightarrow>
   url \<Rightarrow> url \<Rightarrow> url \<Rightarrow> image_state \<Rightarrow> buffer option \<times> image_state" where
  "combineCardImages net render card1Url card2Url card3Url st =
     (let cacheKey = card1Url @ ''|'' @ card2Url @ ''|'' @ card3Url
      in case combinedImageCache st cacheKey of
           Some buf \<Rightarrow> (Some buf, st)
         | None \<Rightarrow>
             (let misses = filter (\<lambda>u. imageCache st u = None) [card1Url, card2Url, card3Url];
                  got = (\<lambda>u. case imageCache st u of Some img \<Rightarrow> Some img | None \<Rightarrow> net u);
                  st1 = st\<lparr>imageCache := foldl (settle net) (imageCache st) misses,
                           requests := requests st @ misses\<rparr>
              in (case (got card1Url, got card2Url, got card3Url) of
                    (Some img1, Some img2, Some img3) \<Rightarrow>
                      (case render img1 img2 img3 of
                         None \<Rightarrow> (None, st1)
                       | Some buf \<Rightarrow>
                           (Some buf,
                            st1\<lparr>combinedImageCache := (combinedImageCache st1)(cacheKey \<mapsto> buf)\<rparr>))
                  | _ \<Rightarrow> (None, st1))))"

section \<open>Notions used to state the properties\<close>

text \<open>Reading a decimal text back, to say what \<open>string_of_nat\<close> prints.\<close>

definition digit_value :: "char \<Rightarrow> nat" where
  "digit_value c = of_char c - 48"

definition decimal_value :: "string \<Rightarrow> nat" where
  "decimal_value s = foldl (\<lambda>a c. 10 * a + digit_value c) 0 s"

text \<open>The inventory that the cache holds for a user, and the entries bearing an instance id.\<close>

definition inventory_of :: "cache \<Rightarrow> user_id \<Rightarrow> entry list" where
  "inventory_of userData u = (case userData u of None \<Rightarrow> [] | Some data \<Rightarrow> inventory data)"

definition count_instance :: "string \<Rightarrow> entry list \<Rightarrow> nat" where
  "count_instance iid inv_list = length (filter (\<lambda>e. entryInstanceId e = Some iid) inv_list)"

text \<open>
  The cache once the receiver's button push has gone through its calls of \<open>getUserData\<close>
  (for the pushing user, the sender and the receiver): the sessions in memory when the
  trade is resolved.
\<close>

definition sessions_loaded :: "store \<Rightarrow> trade_offer \<Rightarrow> cache \<Rightarrow> cache" where
  "sessions_loaded db offer userData =
     (let (data, ud1, w1) = getUserData db (receiverId offer) userData;
          (senderData, ud2, w2) = getUserData db (senderId offer) ud1;
          (receiverData, ud3, w3) = getUserData db (receiverId offer) ud2
      in ud3)"

text \<open>A call made while a session is loaded rejected, so that \<open>catch\<close> ran.\<close>

definition threw :: "store_replies \<Rightarrow> bool" where
  "threw r = (users_select r = Threw \<or> inventory_select r = Threw
              \<or> (reply_data (users_select r) = None \<and> users_insert_throws r))"

subsection \<open>Concrete data for the examples\<close>

definition card_c1 :: card where
  "card_c1 = \<lparr>id_card = ''c1'', name_card = ''Onix'', rarity = ''common'',
              set_card = ''Base Set 2'', imageUrl = ''https://cards/c1.png''\<rparr>"

text \<open>A row of the \<open>inventory\<close> table, as \<open>select('*')\<close> returns it.\<close>

definition row_entry :: entry where
  "row_entry = \<lparr>card_id = Some ''c1'', cardId = None, obtained_at = Some 5, obtainedAt = None,
                 instance_id = Some ''po1a2b''\<rparr>"

definition store_down :: store where
  "store_down = (\<lambda>u. \<lparr>users_select = Threw, inventory_select = Threw, users_insert_throws = True\<rparr>)"

definition users_read_fails :: store where
  "users_read_fails =
     (\<lambda>u. \<lparr>users_select = Failed ''500'', inventory_select = Returned [row_entry],
            users_insert_throws = False\<rparr>)"

definition inventory_read_fails :: store where
  "inventory_read_fails =
     (\<lambda>u. \<lparr>users_select = Returned \<lparr>last_draw = Some 7, last_pack = Some 8, last_pick = Some 9\<rparr>,
            inventory_select = Failed ''500'', users_insert_throws = False\<rparr>)"

definition two_users :: cache where
  "two_users = [''alice'' \<mapsto> empty_data\<lparr>inventory := [row_entry]\<rparr>, ''bob'' \<mapsto> empty_data]"

text \<open>An entry as \<open>/draw\<close> pushes it, and a cache whose sender holds it.\<close>

definition drawn_entry :: entry where
  "drawn_entry = \<lparr>card_id = None, cardId = Some ''c2'', obtained_at = None, obtainedAt = Some 7,
                   instance_id = Some ''po1a2b''\<rparr>"

definition two_users_drawn :: cache where
  "two_users_drawn = [''alice'' \<mapsto> empty_data\<lparr>inventory := [drawn_entry]\<rparr>, ''bob'' \<mapsto> empty_data]"

definition offer_accept :: trade_offer where
  "offer_accept = \<lparr>action = accept, senderId = ''alice'', receiverId = ''bob'', instanceId = ''po1a2b''\<rparr>"

definition offer_gone :: trade_offer where
  "offer_gone = \<lparr>action = accept, senderId = ''alice'', receiverId = ''bob'', instanceId = ''po9zzz''\<rparr>"

definition no_images :: image_state where
  "no_images = \<lparr>imageCache = Map.empty, combinedImageCache = Map.empty, requests = []\<rparr>"

definition net_ok :: "url \<Rightarrow> image option" where
  "net_ok u = Some (''<'' @ u @ ''>'')"

definition net_down :: "url \<Rightarrow> image option" where
  "net_down u = None"

definition render_ok :: "image \<Rightarrow> image \<Rightarrow> image \<Rightarrow> buffer option" where
  "render_ok a b c = Some (a @ b @ c)"

section \<open>Properties of the helpers\<close>

lemma digit_value_digit_char: "d < 10 \<Longrightarrow> digit_value (digit_char d) = d"
proof -
  assume "d < 10"
  then have "d \<in> {0, 1, 2, 3, 4, 5, 6, 7, 8, 9}" by auto
  then show ?thesis by (auto simp: digit_value_def digit_char_def)
qed

lemma decimal_value_snoc: "decimal_value (s @ [c]) = 10 * decimal_value s + digit_value c"
  by (simp add: decimal_value_def)

lemma decimal_value_string_of_nat: "decimal_value (string_of_nat n) = n"
proof (induction n rule: string_of_nat.induct)
  case (1 n)
  show ?case
  proof (cases "n < 10")
    case True
    then show ?thesis
      by (subst string_of_nat.simps) (simp add: decimal_value_def digit_value_digit_char)
  next
    case False
    then have "decimal_value (string_of_nat (n div 10)) = n div 10" using 1 by simp
    with False show ?thesis
      by (subst string_of_nat.simps) (simp add: decimal_value_snoc digit_value_digit_char)
  qed
qed

lemma ceil_ms: "\<lceil>real_of_int ms / 1000\<rceil> = - ((- ms) div 1000)"
  using ceiling_divide_eq_div [of ms 1000] by simp

lemma js_rem_nonneg: "0 \<le> a \<Longrightarrow> 0 < b \<Longrightarrow> js_rem a b = a mod b"
  by (cases "a = 0") (simp_all add: js_rem_def)

section \<open>msToNice\<close>

text \<open>
  C8. For a remaining duration of \<open>ms \<ge> 0\<close> milliseconds, \<open>msToNice\<close> rounds up to whole
  seconds, \<open>t = \<lceil>ms / 1000\<rceil>\<close>, and prints \<open>Xm Ys\<close> with \<open>X = t div 60\<close> and
  \<open>Y = t mod 60\<close> when \<open>t\<close> is at least one minute, and \<open>Ys\<close> with \<open>Y = t\<close> otherwise.
  The numbers are printed in decimal (\<open>decimal_value_string_of_nat\<close>).
\<close>

theorem msToNice_format:
  assumes "0 \<le> ms"
  shows "msToNice ms =
    (let t = \<lceil>real_of_int ms / 1000\<rceil>
     in if 60 \<le> t
        then string_of_nat (nat (t div 60)) @ ''m '' @ string_of_nat (nat (t mod 60)) @ ''s''
        else string_of_nat (nat t) @ ''s'')"
proof -
  define t where "t = - ((- ms) div 1000)"
  have t0: "0 \<le> t" using assms unfolding t_def by (simp add: div_int_pos_iff)
  have m: "(t div 60 > 0) = (60 \<le> t)" using t0 by (simp add: pos_imp_zdiv_pos_iff)
  have r: "js_rem t 60 = t mod 60" using t0 by (simp add: js_rem_nonneg)
  have small: "\<not> 60 \<le> t \<Longrightarrow> t mod 60 = t" using t0 by simp
  have d0: "\<not> t div 60 < 0" using t0 by (simp add: pos_imp_zdiv_neg_iff)
  have m0: "\<not> t mod 60 < 0" by simp
  show ?thesis
    unfolding ceil_ms msToNice_def t_def [symmetric] Let_def m r
    using t0 small d0 m0 by (simp add: string_of_int_def)
qed

theorem msToNice_format_witness:
  "(0::int) \<le> 61500 \<and> msToNice 61500 = ''1m 2s''"
  using msToNice_format [of 61500]
  by (simp add: string_of_nat.simps digit_char_def)

lemma msToNice_examples:
  "msToNice 0 = ''0s''" "msToNice 1 = ''1s''" "msToNice 59000 = ''59s''"
  "msToNice 59001 = ''1m 0s''" "msToNice 900000 = ''15m 0s''"
  by (simp_all add: msToNice_def js_rem_def string_of_int_def string_of_nat.simps digit_char_def)

section \<open>Cooldown gate\<close>

text \<open>
  C2. For every session and each of the three gated actions, with integer millisecond
  timestamps: the gate denies exactly when \<open>now - last < cooldown\<close>; on denial the
  remaining wait handed to \<open>msToNice\<close> is \<open>cooldown - (now - last)\<close>; between two
  denials the later one reports strictly less; the expression is zero exactly at
  \<open>now = last + cooldown\<close>, where the gate lets the action pass.
\<close>

theorem cooldown_gate_denies_iff:
  "(cooldown_gate TEST_MODE a now data \<noteq> None
      \<longleftrightarrow> now - last_of a data < cooldown_of TEST_MODE a)
   \<and> (now - last_of a data < cooldown_of TEST_MODE a \<longrightarrow>
        cooldown_gate TEST_MODE a now data
          = Some (cooldown_of TEST_MODE a - (now - last_of a data)))
   \<and> (\<forall>later r r'. now < later \<and> cooldown_gate TEST_MODE a now data = Some r
                    \<and> cooldown_gate TEST_MODE a later data = Some r' \<longrightarrow> r' < r)
   \<and> (cooldown_of TEST_MODE a - (now - last_of a data) = 0
        \<longleftrightarrow> now = last_of a data + cooldown_of TEST_MODE a)
   \<and> cooldown_gate TEST_MODE a (last_of a data + cooldown_of TEST_MODE a) data = None"
  unfolding cooldown_gate_def check_cooldown_def Let_def
  by auto

theorem cooldown_gate_denies_iff_witness:
  "(1000::int) - 400 < 900000
   \<and> cooldown_gate False draw 1000 (empty_data\<lparr>lastDraw := 400\<rparr>) = Some 899400
   \<and> cooldown_gate False draw 2000 (empty_data\<lparr>lastDraw := 400\<rparr>) = Some 898400
   \<and> (898400::int) < 899400
   \<and> cooldown_gate False draw 900400 (empty_data\<lparr>lastDraw := 400\<rparr>) = None"
  using cooldown_gate_denies_iff [of False draw 1000 "empty_data\<lparr>lastDraw := 400\<rparr>"]
  by (simp add: cooldown_of_def last_of_def DRAW_COOLDOWN_def empty_data_def
      cooldown_gate_def check_cooldown_def)

text \<open>The handlers answer with the wait message exactly when the gate denies.\<close>

lemma kd_draw_denied:
  "now - lastDraw data < DRAW_COOLDOWN TEST_MODE \<Longrightarrow>
   kd_draw TEST_MODE now randomCard iid uid data
     = (Wait (msToNice (DRAW_COOLDOWN TEST_MODE - (now - lastDraw data))), data, [])"
  by (simp add: kd_draw_def cooldown_gate_def check_cooldown_def cooldown_of_def last_of_def)

lemma kd_draw_passed:
  "\<not> now - lastDraw data < DRAW_COOLDOWN TEST_MODE \<Longrightarrow>
   fst (kd_draw TEST_MODE now (Some c) iid uid data) = Drew c
   \<and> lastDraw (fst (snd (kd_draw TEST_MODE now (Some c) iid uid data))) = now
   \<and> length (inventory (fst (snd (kd_draw TEST_MODE now (Some c) iid uid data))))
       = Suc (length (inventory data))"
  by (simp add: kd_draw_def cooldown_gate_def check_cooldown_def cooldown_of_def last_of_def)

lemma slash_draw_denied:
  "now - lastDraw data < DRAW_COOLDOWN TEST_MODE \<Longrightarrow>
   slash_draw TEST_MODE now (Some c) iid uid data
     = (Wait (msToNice (DRAW_COOLDOWN TEST_MODE - (now - lastDraw data))), data, [])"
  by (simp add: slash_draw_def cooldown_gate_def check_cooldown_def cooldown_of_def last_of_def)

lemma pick_command_denied:
  "now - lastPick data < PICK_COOLDOWN TEST_MODE \<Longrightarrow>
   pick_command TEST_MODE now choices data
     = (Wait (msToNice (PICK_COOLDOWN TEST_MODE - (now - lastPick data))), data)"
  by (simp add: pick_command_def cooldown_gate_def check_cooldown_def cooldown_of_def last_of_def)

lemma pick_command_passed:
  "\<not> now - lastPick data < PICK_COOLDOWN TEST_MODE \<Longrightarrow> length choices = 3 \<Longrightarrow>
   pick_command TEST_MODE now choices data
     = (PickOffered, data\<lparr>lastPick := now, pickChoices := Some choices\<rparr>)"
  by (simp add: pick_command_def cooldown_gate_def check_cooldown_def cooldown_of_def last_of_def)

section \<open>Pick button\<close>

lemma js_index_in: "0 \<le> i \<Longrightarrow> i < int (length xs) \<Longrightarrow> js_index xs i = Some (xs ! nat i)"
  by (simp add: js_index_def)

lemma js_index_out: "i < 0 \<or> int (length xs) \<le> i \<Longrightarrow> js_index xs i = None"
  by (auto simp: js_index_def)

text \<open>
  C3. While \<open>pickChoices\<close> is non-empty, the button with a slot inside the choices appends
  exactly one entry (the chosen card, the drawn instance id) to the inventory and empties
  \<open>pickChoices\<close>. Any second push against the resulting session answers that no pick
  session is active and changes nothing, so after both pushes the inventory has gained
  exactly one entry.
\<close>

theorem btn_pick_once_only:
  assumes "pickChoices data = Some choices" and "choices \<noteq> []"
    and "0 \<le> index" and "index < int (length choices)"
  shows "btn_pick index now iid uid data =
           (Picked (choices ! nat index),
            data\<lparr>inventory := inventory data @
                    [\<lparr>card_id = None, cardId = Some (id_card (choices ! nat index)),
                      obtained_at = None, obtainedAt = Some now, instance_id = Some iid\<rparr>],
                  pickChoices := Some []\<rparr>,
            [InsertInventory uid (Some (id_card (choices ! nat index))) now iid])
       \<and> length (inventory (fst (snd (btn_pick index now iid uid data))))
           = length (inventory data) + 1
       \<and> pickChoices (fst (snd (btn_pick index now iid uid data))) = Some []
       \<and> btn_pick index' now' iid' uid (fst (snd (btn_pick index now iid uid data)))
           = (NoActivePick, fst (snd (btn_pick index now iid uid data)), [])
       \<and> length (inventory (fst (snd (btn_pick index' now' iid' uid
                     (fst (snd (btn_pick index now iid uid data)))))))
           = length (inventory data) + 1"
proof -
  have first: "btn_pick index now iid uid data =
           (Picked (choices ! nat index),
            data\<lparr>inventory := inventory data @
                    [\<lparr>card_id = None, cardId = Some (id_card (choices ! nat index)),
                      obtained_at = None, obtainedAt = Some now, instance_id = Some iid\<rparr>],
                  pickChoices := Some []\<rparr>,
            [InsertInventory uid (Some (id_card (choices ! nat index))) now iid])"
    using assms by (simp add: btn_pick_def js_index_in)
  show ?thesis
    unfolding first by (simp add: btn_pick_def)
qed

theorem btn_pick_once_only_witness:
  "pickChoices (empty_data\<lparr>pickChoices := Some [card_c1, card_c1, card_c1]\<rparr>)
     = Some [card_c1, card_c1, card_c1]
   \<and> [card_c1, card_c1, card_c1] \<noteq> [] \<and> (0::int) \<le> 1 \<and> (1::int) < int (length [card_c1, card_c1, card_c1])
   \<and> fst (btn_pick 1 50 ''po1a2b'' ''bob'' (empty_data\<lparr>pickChoices := Some [card_c1, card_c1, card_c1]\<rparr>))
       = Picked card_c1
   \<and> length (inventory (fst (snd (btn_pick 1 50 ''po1a2b'' ''bob''
         (empty_data\<lparr>pickChoices := Some [card_c1, card_c1, card_c1]\<rparr>))))) = 1
   \<and> fst (btn_pick 1 60 ''po9zzz'' ''bob'' (fst (snd (btn_pick 1 50 ''po1a2b'' ''bob''
         (empty_data\<lparr>pickChoices := Some [card_c1, card_c1, card_c1]\<rparr>))))) = NoActivePick
   \<and> length (inventory (fst (snd (btn_pick 1 60 ''po9zzz'' ''bob'' (fst (snd (btn_pick 1 50 ''po1a2b'' ''bob''
         (empty_data\<lparr>pickChoices := Some [card_c1, card_c1, card_c1]\<rparr>)))))))) = 1"
proof -
  let ?data = "empty_data\<lparr>pickChoices := Some [card_c1, card_c1, card_c1]\<rparr>"
  have h1: "pickChoices ?data = Some [card_c1, card_c1, card_c1]" by simp
  have h2: "[card_c1, card_c1, card_c1] \<noteq> []" by simp
  have h3: "(0::int) \<le> 1" by simp
  have h4: "(1::int) < int (length [card_c1, card_c1, card_c1])" by simp
  have e: "inventory ?data = []" by (simp add: empty_data_def)
  note T = btn_pick_once_only [OF h1 h2 h3 h4, of 50 "''po1a2b''" "''bob''" 1 60 "''po9zzz''"]
  have p1: "fst (btn_pick 1 50 ''po1a2b'' ''bob'' ?data) = Picked card_c1"
    by (simp add: T [THEN conjunct1])
  have p2: "length (inventory (fst (snd (btn_pick 1 50 ''po1a2b'' ''bob'' ?data)))) = 1"
    using T [THEN conjunct2, THEN conjunct1] e by simp
  have p3: "fst (btn_pick 1 60 ''po9zzz'' ''bob'' (fst (snd (btn_pick 1 50 ''po1a2b'' ''bob'' ?data))))
              = NoActivePick"
    by (simp only: T [THEN conjunct2, THEN conjunct2, THEN conjunct2, THEN conjunct1] fst_conv)
  have p4: "length (inventory (fst (snd (btn_pick 1 60 ''po9zzz'' ''bob''
              (fst (snd (btn_pick 1 50 ''po1a2b'' ''bob'' ?data))))))) = 1"
    using T [THEN conjunct2, THEN conjunct2, THEN conjunct2, THEN conjunct2] e by simp
  show ?thesis using h1 h2 h3 h4 p1 p2 p3 p4 by blast
qed

text \<open>
  C10. While \<open>pickChoices\<close> is non-empty, the button with a slot outside the choices
  answers \<open>Invalid choice\<close> and leaves the session as it was, inventory and \<open>pickChoices\<close>
  included: the pick session stays active, and a later push with a slot inside the choices
  picks that card.
\<close>

theorem btn_pick_invalid_choice:
  assumes "pickChoices data = Some choices" and "choices \<noteq> []"
    and "index < 0 \<or> int (length choices) \<le> index"
  shows "btn_pick index now iid uid data = (InvalidChoice, data, [])
       \<and> (\<forall>j. 0 \<le> j \<and> j < int (length choices) \<longrightarrow>
             fst (btn_pick j now' iid' uid (fst (snd (btn_pick index now iid uid data))))
               = Picked (choices ! nat j))"
proof -
  have inv: "btn_pick index now iid uid data = (InvalidChoice, data, [])"
    using assms by (simp add: btn_pick_def js_index_out)
  show ?thesis
    unfolding inv using assms(1,2) by (simp add: btn_pick_def js_index_in)
qed

theorem btn_pick_invalid_choice_witness:
  "pickChoices (empty_data\<lparr>pickChoices := Some [card_c1, card_c1, card_c1]\<rparr>)
     = Some [card_c1, card_c1, card_c1]
   \<and> [card_c1, card_c1, card_c1] \<noteq> [] \<and> int (length [card_c1, card_c1, card_c1]) \<le> 3
   \<and> btn_pick 3 50 ''po1a2b'' ''bob'' (empty_data\<lparr>pickChoices := Some [card_c1, card_c1, card_c1]\<rparr>)
       = (InvalidChoice, empty_data\<lparr>pickChoices := Some [card_c1, card_c1, card_c1]\<rparr>, [])
   \<and> fst (btn_pick 2 60 ''po9zzz'' ''bob'' (fst (snd (btn_pick 3 50 ''po1a2b'' ''bob''
         (empty_data\<lparr>pickChoices := Some [card_c1, card_c1, card_c1]\<rparr>))))) = Picked card_c1"
proof -
  let ?data = "empty_data\<lparr>pickChoices := Some [card_c1, card_c1, card_c1]\<rparr>"
  have h1: "pickChoices ?data = Some [card_c1, card_c1, card_c1]" by simp
  have h2: "[card_c1, card_c1, card_c1] \<noteq> []" by simp
  have h3: "int (length [card_c1, card_c1, card_c1]) \<le> 3" by simp
  from h3 have h3': "(3::int) < 0 \<or> int (length [card_c1, card_c1, card_c1]) \<le> 3" by simp
  note T = btn_pick_invalid_choice [OF h1 h2 h3', of 50 "''po1a2b''" "''bob''" 60 "''po9zzz''"]
  from T have p1: "btn_pick 3 50 ''po1a2b'' ''bob'' ?data = (InvalidChoice, ?data, [])"
    by (rule conjunct1)
  from T have "0 \<le> (2::int) \<and> (2::int) < int (length [card_c1, card_c1, card_c1]) \<longrightarrow>
      fst (btn_pick 2 60 ''po9zzz'' ''bob'' (fst (snd (btn_pick 3 50 ''po1a2b'' ''bob'' ?data))))
        = Picked ([card_c1, card_c1, card_c1] ! nat 2)"
    by blast
  then have p2: "fst (btn_pick 2 60 ''po9zzz'' ''bob'' (fst (snd (btn_pick 3 50 ''po1a2b'' ''bob'' ?data))))
        = Picked card_c1"
    by simp
  show ?thesis using h1 h2 h3 p1 p2 by blast
qed

section \<open>/trash\<close>

lemma trash_invalid_iff:
  "(fst (trash index uid data) = InvalidIndex) = (index < 0 \<or> int (length (inventory data)) \<le> index)"
  by (simp add: trash_def Let_def)

lemma trash_invalid_unchanged:
  "index < 0 \<or> int (length (inventory data)) \<le> index \<Longrightarrow> trash index uid data = (InvalidIndex, data, [])"
  by (auto simp add: trash_def Let_def)

lemma trash_removes:
  "0 \<le> index \<Longrightarrow> index < int (length (inventory data)) \<Longrightarrow>
   trash index uid data =
     (Trashed (inventory data ! nat index),
      data\<lparr>inventory := take (nat index) (inventory data) @ drop (Suc (nat index)) (inventory data)\<rparr>,
      [DeleteInventoryByCard uid (cardId (inventory data ! nat index)) (obtainedAt (inventory data ! nat index))])"
  by (simp add: trash_def Let_def splice1_def)

text \<open>
  An entry that \<open>/draw\<close> pushed has its card id and time under \<open>cardId\<close> and
  \<open>obtainedAt\<close>, the properties that \<open>/trash\<close> reads: the delete names the row that the
  draw inserted.
\<close>

lemma trash_after_slash_draw:
  "snd (snd (slash_draw True 5 (Some card_c1) ''po1a2b'' ''alice'' empty_data))
     = [InsertInventory ''alice'' (Some ''c1'') 5 ''po1a2b'', UpsertCooldowns ''alice'' 5 0 0]
   \<and> snd (snd (trash 0 ''alice''
         (fst (snd (slash_draw True 5 (Some card_c1) ''po1a2b'' ''alice'' empty_data)))))
     = [DeleteInventoryByCard ''alice'' (Some ''c1'') (Some 5)]"
  by (simp add: slash_draw_def trash_def cooldown_gate_def check_cooldown_def cooldown_of_def
      last_of_def DRAW_COOLDOWN_def empty_data_def card_c1_def splice1_def)

text \<open>
  C4. The range check and the removal are as claimed (\<open>trash_invalid_iff\<close>,
  \<open>trash_invalid_unchanged\<close>, \<open>trash_removes\<close>). The delete is matched on the user id and
  on the properties \<open>cardId\<close> and \<open>obtainedAt\<close> of the removed entry. An entry pushed by
  the text command \<open>kd\<close> (or by the draw button, or loaded from the table) keeps its card
  id and time under \<open>card_id\<close> and \<open>obtained_at\<close>: for it \<open>/trash\<close> removes the entry from
  the inventory and issues a delete matched on \<open>undefined\<close> for both, not on the card id
  and time of the removed entry, which are those of the row that the draw inserted.
\<close>

theorem trash_after_text_draw:
  "snd (snd (kd_draw True 5 (Some card_c1) ''po1a2b'' ''alice'' empty_data))
     = [InsertInventory ''alice'' (Some ''c1'') 5 ''po1a2b'', UpsertCooldowns ''alice'' 5 0 0]
   \<and> inventory (fst (snd (kd_draw True 5 (Some card_c1) ''po1a2b'' ''alice'' empty_data)))
     = [row_entry]
   \<and> entryCardId row_entry = Some ''c1''
   \<and> fst (trash 0 ''alice'' (fst (snd (kd_draw True 5 (Some card_c1) ''po1a2b'' ''alice'' empty_data))))
     = Trashed row_entry
   \<and> inventory (fst (snd (trash 0 ''alice''
         (fst (snd (kd_draw True 5 (Some card_c1) ''po1a2b'' ''alice'' empty_data))))))
     = []
   \<and> snd (snd (trash 0 ''alice''
         (fst (snd (kd_draw True 5 (Some card_c1) ''po1a2b'' ''alice'' empty_data)))))
     = [DeleteInventoryByCard ''alice'' None None]"
  by (simp add: kd_draw_def trash_def cooldown_gate_def check_cooldown_def cooldown_of_def
      last_of_def DRAW_COOLDOWN_def empty_data_def card_c1_def splice1_def row_entry_def
      entryCardId_def js_or_def)

section \<open>getUserData\<close>

lemma getUserData_cached: "userData u = Some d \<Longrightarrow> getUserData db u userData = (d, userData, [])"
  by (simp add: getUserData_def)

lemma getUserData_miss:
  "userData u = None \<Longrightarrow>
   getUserData db u userData =
     (fst (load_session u (db u)), userData(u \<mapsto> fst (load_session u (db u))), snd (load_session u (db u)))"
  by (simp add: getUserData_def split_beta)

lemma getUserData_result:
  assumes "getUserData db u userData = (d, ud', ws)"
  shows "ud' u = Some d" and "\<And>v. v \<noteq> u \<Longrightarrow> ud' v = userData v"
    and "\<And>v s. userData v = Some s \<Longrightarrow> ud' v = Some s"
    and "set ws \<subseteq> {InsertUser u}"
  using assms
  by (auto simp: getUserData_def load_session_def Let_def split: option.splits if_splits prod.splits)

text \<open>
  C6, as stated: any failing read gives the empty default. Against it: the read of
  \<open>users\<close> resolves with an error while the read of \<open>inventory\<close> returns a row, and the
  session has that row in its inventory; the read of \<open>inventory\<close> resolves with an error
  while the read of \<open>users\<close> returns a row, and the session has that row's \<open>last_draw\<close>.
\<close>

theorem getUserData_read_failure_counterexample:
  "users_select (users_read_fails ''u1'') = Failed ''500''
   \<and> inventory (fst (getUserData users_read_fails ''u1'' Map.empty)) = [row_entry]
   \<and> fst (getUserData users_read_fails ''u1'' Map.empty) \<noteq> empty_data
   \<and> inventory_select (inventory_read_fails ''u1'') = Failed ''500''
   \<and> lastDraw (fst (getUserData inventory_read_fails ''u1'' Map.empty)) = 7"
  by (simp add: getUserData_def load_session_def users_read_fails_def inventory_read_fails_def
      reply_data_def loaded_data_def empty_data_def js_or_zero_def)

text \<open>
  C6, amended. For a user not yet in the cache, \<open>getUserData\<close> always returns a session
  and caches it. When a call made while loading rejects, the session is the empty default:
  empty inventory, \<open>lastDraw = lastPack = lastPick = 0\<close>. Otherwise the inventory is the
  rows that the read of \<open>inventory\<close> returned, and empty when that read resolved with an
  error; the three timestamps are those of the row that the read of \<open>users\<close> returned
  (\<open>0\<close> for a missing one), and all \<open>0\<close> when that read resolved with an error or found
  no row.
\<close>

theorem getUserData_degrades:
  assumes "userData userId = None"
  shows "(threw (db userId) \<longrightarrow> fst (getUserData db userId userData) = empty_data)
       \<and> (\<not> threw (db userId) \<longrightarrow>
            inventory (fst (getUserData db userId userData))
              = (case inventory_select (db userId) of Returned rows \<Rightarrow> rows | _ \<Rightarrow> [])
          \<and> (case users_select (db userId) of
                Returned u \<Rightarrow>
                  lastDraw (fst (getUserData db userId userData)) = js_or_zero (last_draw u)
                  \<and> lastPack (fst (getUserData db userId userData)) = js_or_zero (last_pack u)
                  \<and> lastPick (fst (getUserData db userId userData)) = js_or_zero (last_pick u)
              | _ \<Rightarrow>
                  lastDraw (fst (getUserData db userId userData)) = 0
                  \<and> lastPack (fst (getUserData db userId userData)) = 0
                  \<and> lastPick (fst (getUserData db userId userData)) = 0))
       \<and> fst (snd (getUserData db userId userData)) userId = Some (fst (getUserData db userId userData))"
  unfolding getUserData_miss [of userData userId, OF assms]
  by (auto simp: threw_def load_session_def Let_def reply_data_def loaded_data_def
      split: reply.splits)

theorem getUserData_degrades_witness:
  "(Map.empty :: cache) ''u1'' = None
   \<and> \<not> threw (users_read_fails ''u1'')
   \<and> inventory (fst (getUserData users_read_fails ''u1'' Map.empty)) = [row_entry]
   \<and> lastDraw (fst (getUserData users_read_fails ''u1'' Map.empty)) = 0
   \<and> lastPack (fst (getUserData users_read_fails ''u1'' Map.empty)) = 0
   \<and> lastPick (fst (getUserData users_read_fails ''u1'' Map.empty)) = 0
   \<and> threw (store_down ''u1'')
   \<and> fst (getUserData store_down ''u1'' Map.empty) = empty_data"
  using getUserData_degrades [of Map.empty "''u1''" users_read_fails]
    getUserData_degrades [of Map.empty "''u1''" store_down]
  by (simp add: threw_def users_read_fails_def store_down_def reply_data_def)

section \<open>Image caches\<close>

lemma combineCardImages_cached:
  "combinedImageCache st (u1 @ ''|'' @ u2 @ ''|'' @ u3) = Some buf \<Longrightarrow>
   combineCardImages net render u1 u2 u3 st = (Some buf, st)"
  by (simp add: combineCardImages_def)

lemma combineCardImages_caches:
  assumes "combineCardImages net render u1 u2 u3 st = (Some buf, st')"
  shows "combinedImageCache st' (u1 @ ''|'' @ u2 @ ''|'' @ u3) = Some buf"
proof (cases "combinedImageCache st (u1 @ ''|'' @ u2 @ ''|'' @ u3)")
  case (Some b)
  with assms show ?thesis by (simp add: combineCardImages_def)
next
  case None
  with assms show ?thesis
    by (auto simp: combineCardImages_def Let_def split: option.splits)
qed

lemma fetchAndCacheImage_second_call:
  assumes "fetchAndCacheImage net u st = (Some img, st')"
  shows "fetchAndCacheImage net' u st' = (Some img, st')"
  using assms by (auto simp: fetchAndCacheImage_def split: option.splits)

lemma combineCardImages_failure_not_cached:
  "combineCardImages net_down render_ok ''a'' ''bb'' ''c'' no_images
     = (None, no_images\<lparr>requests := [''a'', ''bb'', ''c'']\<rparr>)"
  by (simp add: combineCardImages_def no_images_def net_down_def settle_def Let_def)

text \<open>
  C7. When a call of \<open>combineCardImages\<close> on three URLs has returned bytes, a second call
  on the same three URLs in the same order returns the same bytes and leaves the caches
  and the list of requests as they were, whatever the network and the canvas would do:
  it sends no request. (A call that failed has cached no bytes:
  \<open>combineCardImages_failure_not_cached\<close>.)
\<close>

theorem combineCardImages_second_call:
  assumes "combineCardImages net render u1 u2 u3 st = (Some buf, st')"
  shows "combineCardImages net' render' u1 u2 u3 st' = (Some buf, st')
       \<and> requests (snd (combineCardImages net' render' u1 u2 u3 st')) = requests st'"
  using combineCardImages_cached [OF combineCardImages_caches [OF assms]] by simp

theorem combineCardImages_second_call_witness:
  "combineCardImages net_ok render_ok ''a'' ''bb'' ''a'' no_images
     = (Some ''<a><bb><a>'',
        \<lparr>imageCache = [''a'' \<mapsto> ''<a>'', ''bb'' \<mapsto> ''<bb>''],
         combinedImageCache = [''a|bb|a'' \<mapsto> ''<a><bb><a>''],
         requests = [''a'', ''bb'', ''a'']\<rparr>)
   \<and> combineCardImages net_down render_ok ''a'' ''bb'' ''a''
        (snd (combineCardImages net_ok render_ok ''a'' ''bb'' ''a'' no_images))
     = (Some ''<a><bb><a>'', snd (combineCardImages net_ok render_ok ''a'' ''bb'' ''a'' no_images))"
proof -
  have first: "combineCardImages net_ok render_ok ''a'' ''bb'' ''a'' no_images
     = (Some ''<a><bb><a>'',
        \<lparr>imageCache = [''a'' \<mapsto> ''<a>'', ''bb'' \<mapsto> ''<bb>''],
         combinedImageCache = [''a|bb|a'' \<mapsto> ''<a><bb><a>''],
         requests = [''a'', ''bb'', ''a'']\<rparr>)"
    by (simp add: combineCardImages_def no_images_def net_ok_def render_ok_def settle_def fun_upd_twist)
  show ?thesis
    using combineCardImages_second_call [OF first, of net_down render_ok] first by simp
qed

section \<open>Trade buttons\<close>

lemma findIndex_None: "(findIndex P xs = None) = (filter P xs = [])"
  by (induction xs) auto

lemma findIndex_Some:
  "findIndex P xs = Some i \<Longrightarrow> i < length xs \<and> P (xs ! i) \<and> (\<forall>j<i. \<not> P (xs ! j))"
proof (induction xs arbitrary: i)
  case Nil
  then show ?case by simp
next
  case (Cons x xs)
  show ?case
  proof (cases "P x")
    case True
    with Cons.prems show ?thesis by simp
  next
    case False
    with Cons.prems obtain k where k: "findIndex P xs = Some k" "i = Suc k" by auto
    from Cons.IH [OF k(1)] False k(2) show ?thesis
      by (auto simp: nth_Cons split: nat.splits)
  qed
qed

lemma length_splice1: "i < length xs \<Longrightarrow> Suc (length (splice1 xs i)) = length xs"
  by (auto simp: splice1_def)

lemma filter_splice1:
  assumes "i < length xs" and "P (xs ! i)"
  shows "Suc (length (filter P (splice1 xs i))) = length (filter P xs)"
proof -
  have "xs = take i xs @ xs ! i # drop (Suc i) xs"
    using assms(1) by (simp add: id_take_nth_drop)
  then have "filter P xs = filter P (take i xs) @ xs ! i # filter P (drop (Suc i) xs)"
    using assms(2) by (metis filter.simps(2) filter_append)
  then show ?thesis by (simp add: splice1_def)
qed

lemma sessions_loaded_eq:
  assumes g1: "getUserData db (receiverId offer) userData = (d, ud1, w1)"
    and g2: "getUserData db (senderId offer) ud1 = (sd, ud2, w2)"
  shows "getUserData db (receiverId offer) ud2 = (d, ud2, [])"
    and "sessions_loaded db offer userData = ud2"
    and "ud2 (senderId offer) = Some sd" and "ud2 (receiverId offer) = Some d"
proof -
  have r1: "ud1 (receiverId offer) = Some d" using getUserData_result(1) [OF g1] .
  have r2: "ud2 (receiverId offer) = Some d" using getUserData_result(3) [OF g2 r1] .
  show g3: "getUserData db (receiverId offer) ud2 = (d, ud2, [])"
    using r2 by (simp add: getUserData_cached)
  show "sessions_loaded db offer userData = ud2"
    by (simp add: sessions_loaded_def g1 g2 g3)
  show "ud2 (senderId offer) = Some sd" using getUserData_result(1) [OF g2] .
  show "ud2 (receiverId offer) = Some d" by (rule r2)
qed

lemma trade_button_accept:
  assumes g1: "getUserData db (receiverId offer) userData = (d, ud1, w1)"
    and g2: "getUserData db (senderId offer) ud1 = (sd, ud2, w2)"
    and acc: "action offer = accept"
  shows "trade_button db True now (receiverId offer) offer userData =
     (case findIndex (\<lambda>e. entryInstanceId e = Some (instanceId offer)) (inventory sd) of
        None \<Rightarrow> (TradeFailed, ud2, w1 @ w2)
      | Some i \<Rightarrow>
          (TradeCompleted,
           ud2(senderId offer \<mapsto> sd\<lparr>inventory := splice1 (inventory sd) i\<rparr>,
               receiverId offer \<mapsto>
                 (if receiverId offer = senderId offer
                  then sd\<lparr>inventory := splice1 (inventory sd) i @
                          [traded_entry (entryCardId (inventory sd ! i)) now (instanceId offer)]\<rparr>
                  else d\<lparr>inventory := inventory d @
                          [traded_entry (entryCardId (inventory sd ! i)) now (instanceId offer)]\<rparr>)),
           w1 @ w2 @
           [DeleteInventoryByInstance (senderId offer) (instanceId offer),
            InsertInventory (receiverId offer) (entryCardId (inventory sd ! i)) now (instanceId offer)]))"
  using sessions_loaded_eq(1) [OF g1 g2]
  by (simp add: trade_button_def g1 g2 acc Let_def split: option.splits)

lemma sessions_loaded_cached:
  "userData (senderId offer) = Some sd \<Longrightarrow> userData (receiverId offer) = Some rd \<Longrightarrow>
   sessions_loaded db offer userData = userData"
  by (simp add: sessions_loaded_def getUserData_def)

lemma entryInstanceId_nonempty: "entryInstanceId e = Some iid \<Longrightarrow> iid \<noteq> []"
  by (auto simp: entryInstanceId_def js_or_def split: option.splits if_splits)

lemma entryInstanceId_traded: "iid \<noteq> [] \<Longrightarrow> entryInstanceId (traded_entry cid now iid) = Some iid"
  by (simp add: entryInstanceId_def js_or_def traded_entry_def)

lemma entryCardId_traded: "entryCardId (traded_entry cid now iid) = cid"
  by (auto simp: entryCardId_def js_or_def traded_entry_def split: option.splits)

lemma instance_id_of_entryInstanceId: "entryInstanceId e = Some iid \<Longrightarrow> instance_id e = Some iid"
  by (auto simp: entryInstanceId_def js_or_def split: option.splits if_splits)

lemma sessions_loaded_two_users_drawn:
  "sessions_loaded store_down offer_accept two_users_drawn = two_users_drawn"
  by (simp add: sessions_loaded_def getUserData_def two_users_drawn_def offer_accept_def)

lemma sessions_loaded_two_users:
  "sessions_loaded store_down offer_accept two_users = two_users"
  "sessions_loaded store_down offer_gone two_users = two_users"
  by (simp_all add: sessions_loaded_def getUserData_def two_users_def offer_accept_def offer_gone_def)

text \<open>
  C1. The receiver accepts, in an allowed channel. An entry bears an instance id when
  \<open>entry.instance_id || entry.instanceId\<close> is that id. If no entry of the sender's
  inventory in memory bears the offered id, the answer is that the trade failed and the
  cache, hence both inventories, is unchanged. If exactly one entry of the sender bears
  it and none of the receiver, the trade completes, the sender's inventory is one shorter,
  the receiver's one longer, and the entries bearing the id in the two inventories are
  one before and one after.
\<close>

theorem trade_accept_conservation:
  assumes acc: "action offer = accept"
  shows "let ud = sessions_loaded db offer userData;
             res = trade_button db True now (receiverId offer) offer userData;
             ud' = fst (snd res);
             iid = instanceId offer; s = senderId offer; r = receiverId offer
         in (count_instance iid (inventory_of ud s) = 0 \<longrightarrow>
               fst res = TradeFailed \<and> ud' = ud)
          \<and> (count_instance iid (inventory_of ud s) = 1 \<and> count_instance iid (inventory_of ud r) = 0 \<longrightarrow>
               fst res = TradeCompleted
               \<and> Suc (length (inventory_of ud' s)) = length (inventory_of ud s)
               \<and> length (inventory_of ud' r) = Suc (length (inventory_of ud r))
               \<and> count_instance iid (inventory_of ud s) + count_instance iid (inventory_of ud r) = 1
               \<and> count_instance iid (inventory_of ud' s) + count_instance iid (inventory_of ud' r) = 1)"
proof -
  obtain d ud1 w1 where g1: "getUserData db (receiverId offer) userData = (d, ud1, w1)"
    by (cases "getUserData db (receiverId offer) userData") auto
  obtain sd ud2 w2 where g2: "getUserData db (senderId offer) ud1 = (sd, ud2, w2)"
    by (cases "getUserData db (senderId offer) ud1") auto
  note L = sessions_loaded_eq [OF g1 g2]
  note T = trade_button_accept [OF g1 g2 acc, of now]
  let ?P = "\<lambda>e. entryInstanceId e = Some (instanceId offer)"
  have invs: "inventory_of ud2 (senderId offer) = inventory sd"
    and invr: "inventory_of ud2 (receiverId offer) = inventory d"
    by (simp_all add: inventory_of_def L)
  have abort: "fst (trade_button db True now (receiverId offer) offer userData) = TradeFailed
      \<and> fst (snd (trade_button db True now (receiverId offer) offer userData)) = ud2"
    if "count_instance (instanceId offer) (inventory sd) = 0"
  proof -
    from that have "findIndex ?P (inventory sd) = None"
      by (simp add: count_instance_def findIndex_None)
    then show ?thesis by (simp add: T)
  qed
  have completed: "fst (trade_button db True now (receiverId offer) offer userData) = TradeCompleted
      \<and> Suc (length (inventory_of (fst (snd (trade_button db True now (receiverId offer) offer userData))) (senderId offer)))
          = length (inventory sd)
      \<and> length (inventory_of (fst (snd (trade_button db True now (receiverId offer) offer userData))) (receiverId offer))
          = Suc (length (inventory d))
      \<and> count_instance (instanceId offer) (inventory_of (fst (snd (trade_button db True now (receiverId offer) offer userData))) (senderId offer))
        + count_instance (instanceId offer) (inventory_of (fst (snd (trade_button db True now (receiverId offer) offer userData))) (receiverId offer)) = 1"
    if c1: "count_instance (instanceId offer) (inventory sd) = 1"
      and c0: "count_instance (instanceId offer) (inventory d) = 0"
  proof -
    have ne: "receiverId offer \<noteq> senderId offer"
    proof
      assume "receiverId offer = senderId offer"
      with L(3,4) have "sd = d" by simp
      with c1 c0 show False by simp
    qed
    from c1 have "filter ?P (inventory sd) \<noteq> []" by (auto simp: count_instance_def)
    then obtain i where i: "findIndex ?P (inventory sd) = Some i"
      using findIndex_None [of ?P "inventory sd"] by (cases "findIndex ?P (inventory sd)") auto
    from findIndex_Some [OF i] have il: "i < length (inventory sd)" and ip: "?P (inventory sd ! i)"
      by auto
    have nonempty: "instanceId offer \<noteq> []" using ip by (rule entryInstanceId_nonempty)
    have cs: "Suc (count_instance (instanceId offer) (splice1 (inventory sd) i)) = 1"
      using filter_splice1 [of i "inventory sd" ?P, OF il ip] c1 by (simp add: count_instance_def)
    show ?thesis
      using ne il c0 cs length_splice1 [OF il] entryInstanceId_traded [OF nonempty]
      by (simp add: T i inventory_of_def count_instance_def)
  qed
  show ?thesis
    unfolding Let_def L(2) invs invr using abort completed by simp
qed

theorem trade_accept_conservation_witness:
  "action offer_accept = accept
   \<and> count_instance ''po1a2b'' (inventory_of two_users ''alice'') = 1
   \<and> count_instance ''po1a2b'' (inventory_of two_users ''bob'') = 0
   \<and> fst (trade_button store_down True 99 ''bob'' offer_accept two_users) = TradeCompleted
   \<and> length (inventory_of (fst (snd (trade_button store_down True 99 ''bob'' offer_accept two_users))) ''alice'') = 0
   \<and> length (inventory_of (fst (snd (trade_button store_down True 99 ''bob'' offer_accept two_users))) ''bob'') = 1
   \<and> count_instance ''po1a2b'' (inventory_of (fst (snd (trade_button store_down True 99 ''bob'' offer_accept two_users))) ''alice'')
     + count_instance ''po1a2b'' (inventory_of (fst (snd (trade_button store_down True 99 ''bob'' offer_accept two_users))) ''bob'') = 1
   \<and> action offer_gone = accept
   \<and> count_instance ''po9zzz'' (inventory_of two_users ''alice'') = 0
   \<and> trade_button store_down True 99 ''bob'' offer_gone two_users = (TradeFailed, two_users, [])"
proof -
  have a1: "action offer_accept = accept" and a2: "action offer_gone = accept"
    by (simp_all add: offer_accept_def offer_gone_def)
  have c: "count_instance ''po1a2b'' (inventory_of two_users ''alice'') = 1"
    "count_instance ''po1a2b'' (inventory_of two_users ''bob'') = 0"
    "count_instance ''po9zzz'' (inventory_of two_users ''alice'') = 0"
    by (simp_all add: count_instance_def inventory_of_def two_users_def empty_data_def
        row_entry_def entryInstanceId_def js_or_def)
  have f: "instanceId offer_accept = ''po1a2b''" "senderId offer_accept = ''alice''"
    "receiverId offer_accept = ''bob''" "instanceId offer_gone = ''po9zzz''"
    "senderId offer_gone = ''alice''" "receiverId offer_gone = ''bob''"
    by (simp_all add: offer_accept_def offer_gone_def)
  have w: "snd (snd (trade_button store_down True 99 ''bob'' offer_gone two_users)) = []"
    by (simp add: trade_button_def getUserData_def two_users_def offer_gone_def
        empty_data_def row_entry_def entryInstanceId_def js_or_def)
  have l: "length (inventory_of two_users ''alice'') = 1" "inventory_of two_users ''bob'' = []"
    by (simp_all add: inventory_of_def two_users_def empty_data_def)
  show ?thesis
    using trade_accept_conservation [OF a1, of store_down two_users 99]
      trade_accept_conservation [OF a2, of store_down two_users 99] a1 a2 c w l
    by (auto simp add: Let_def sessions_loaded_two_users f prod_eq_iff)
qed

text \<open>
  C9. In an accepted trade, with \<open>removed\<close> the entry that \<open>findIndex\<close> found in the
  sender's inventory: the trade completes and the receiver's inventory gains one last
  entry. That entry carries the card id of \<open>removed\<close>, read on the properties of
  \<open>removed\<close> themselves: when \<open>removed.card_id\<close> is a non-empty string, that string is
  under both \<open>card_id\<close> and \<open>cardId\<close> of the new entry; when \<open>removed.card_id\<close> is
  missing or empty, \<open>removed.cardId\<close> is under both. Its \<open>instance_id\<close> is that of
  \<open>removed\<close>, which is the offered id. Its \<open>obtained_at\<close> and \<open>obtainedAt\<close> are the
  time of the acceptance, whatever the time in \<open>removed\<close> was. The witness trades an
  entry of each shape, obtained at 5 and at 7, at time 99.
\<close>

theorem trade_accept_entry:
  assumes acc: "action offer = accept"
    and found: "findIndex (\<lambda>e. entryInstanceId e = Some (instanceId offer))
                  (inventory_of (sessions_loaded db offer userData) (senderId offer)) = Some i"
  shows "let ud = sessions_loaded db offer userData;
             removed = inventory_of ud (senderId offer) ! i;
             ud' = fst (snd (trade_button db True now (receiverId offer) offer userData));
             new = last (inventory_of ud' (receiverId offer))
         in fst (trade_button db True now (receiverId offer) offer userData) = TradeCompleted
          \<and> inventory_of ud' (receiverId offer)
              = (if receiverId offer = senderId offer
                 then splice1 (inventory_of ud (senderId offer)) i
                 else inventory_of ud (receiverId offer)) @ [new]
          \<and> (\<forall>c. card_id removed = Some c \<and> c \<noteq> [] \<longrightarrow>
                 card_id new = Some c \<and> cardId new = Some c)
          \<and> (card_id removed = None \<or> card_id removed = Some [] \<longrightarrow>
                 card_id new = cardId removed \<and> cardId new = cardId removed)
          \<and> instance_id removed = Some (instanceId offer)
          \<and> instance_id new = instance_id removed
          \<and> entryCardId new = entryCardId removed
          \<and> card_id new = entryCardId removed
          \<and> cardId new = entryCardId removed
          \<and> entryInstanceId new = entryInstanceId removed
          \<and> instance_id new = Some (instanceId offer)
          \<and> obtained_at new = Some now
          \<and> obtainedAt new = Some now"
proof -
  obtain d ud1 w1 where g1: "getUserData db (receiverId offer) userData = (d, ud1, w1)"
    by (cases "getUserData db (receiverId offer) userData") auto
  obtain sd ud2 w2 where g2: "getUserData db (senderId offer) ud1 = (sd, ud2, w2)"
    by (cases "getUserData db (senderId offer) ud1") auto
  note L = sessions_loaded_eq [OF g1 g2]
  have invs: "inventory_of ud2 (senderId offer) = inventory sd"
    and invr: "inventory_of ud2 (receiverId offer) = inventory d"
    by (simp_all add: inventory_of_def L)
  have i: "findIndex (\<lambda>e. entryInstanceId e = Some (instanceId offer)) (inventory sd) = Some i"
    using found by (simp add: L(2) invs)
  from findIndex_Some [OF i] have ip: "entryInstanceId (inventory sd ! i) = Some (instanceId offer)"
    by simp
  have raw: "instance_id (inventory sd ! i) = Some (instanceId offer)"
    using ip by (rule instance_id_of_entryInstanceId)
  have nonempty: "instanceId offer \<noteq> []" using ip by (rule entryInstanceId_nonempty)
  have new: "inventory_of (fst (snd (trade_button db True now (receiverId offer) offer userData)))
               (receiverId offer)
             = (if receiverId offer = senderId offer then splice1 (inventory sd) i else inventory d)
               @ [traded_entry (entryCardId (inventory sd ! i)) now (instanceId offer)]"
    by (simp add: trade_button_accept [OF g1 g2 acc] i inventory_of_def)
  have completed: "fst (trade_button db True now (receiverId offer) offer userData) = TradeCompleted"
    by (simp add: trade_button_accept [OF g1 g2 acc] i)
  have c1: "\<forall>c. card_id (inventory sd ! i) = Some c \<and> c \<noteq> [] \<longrightarrow>
              entryCardId (inventory sd ! i) = Some c"
    by (simp add: entryCardId_def js_or_def)
  have c2: "card_id (inventory sd ! i) = None \<or> card_id (inventory sd ! i) = Some [] \<longrightarrow>
              entryCardId (inventory sd ! i) = cardId (inventory sd ! i)"
    by (auto simp: entryCardId_def js_or_def)
  show ?thesis
    unfolding Let_def L(2) invs invr new
    using ip raw entryInstanceId_traded [OF nonempty] entryCardId_traded completed c1 c2
    by (simp add: traded_entry_def)
qed

theorem trade_accept_entry_witness:
  "action offer_accept = accept
   \<and> findIndex (\<lambda>e. entryInstanceId e = Some (instanceId offer_accept))
        (inventory_of (sessions_loaded store_down offer_accept two_users) (senderId offer_accept)) = Some 0
   \<and> inventory_of two_users ''alice'' ! 0 = row_entry
   \<and> card_id row_entry = Some ''c1'' \<and> cardId row_entry = None \<and> obtained_at row_entry = Some 5
   \<and> fst (trade_button store_down True 99 ''bob'' offer_accept two_users) = TradeCompleted
   \<and> card_id (last (inventory_of (fst (snd (trade_button store_down True 99 ''bob'' offer_accept two_users))) ''bob'')) = Some ''c1''
   \<and> cardId (last (inventory_of (fst (snd (trade_button store_down True 99 ''bob'' offer_accept two_users))) ''bob'')) = Some ''c1''
   \<and> instance_id (last (inventory_of (fst (snd (trade_button store_down True 99 ''bob'' offer_accept two_users))) ''bob'')) = Some ''po1a2b''
   \<and> obtained_at (last (inventory_of (fst (snd (trade_button store_down True 99 ''bob'' offer_accept two_users))) ''bob'')) = Some 99
   \<and> obtainedAt (last (inventory_of (fst (snd (trade_button store_down True 99 ''bob'' offer_accept two_users))) ''bob'')) = Some 99
   \<and> findIndex (\<lambda>e. entryInstanceId e = Some (instanceId offer_accept))
        (inventory_of (sessions_loaded store_down offer_accept two_users_drawn) (senderId offer_accept)) = Some 0
   \<and> inventory_of two_users_drawn ''alice'' ! 0 = drawn_entry
   \<and> card_id drawn_entry = None \<and> cardId drawn_entry = Some ''c2'' \<and> obtainedAt drawn_entry = Some 7
   \<and> fst (trade_button store_down True 99 ''bob'' offer_accept two_users_drawn) = TradeCompleted
   \<and> card_id (last (inventory_of (fst (snd (trade_button store_down True 99 ''bob'' offer_accept two_users_drawn))) ''bob'')) = Some ''c2''
   \<and> cardId (last (inventory_of (fst (snd (trade_button store_down True 99 ''bob'' offer_accept two_users_drawn))) ''bob'')) = Some ''c2''
   \<and> instance_id (last (inventory_of (fst (snd (trade_button store_down True 99 ''bob'' offer_accept two_users_drawn))) ''bob'')) = Some ''po1a2b''
   \<and> obtained_at (last (inventory_of (fst (snd (trade_button store_down True 99 ''bob'' offer_accept two_users_drawn))) ''bob'')) = Some 99
   \<and> obtainedAt (last (inventory_of (fst (snd (trade_button store_down True 99 ''bob'' offer_accept two_users_drawn))) ''bob'')) = Some 99"
proof -
  have a1: "action offer_accept = accept" by (simp add: offer_accept_def)
  have f: "instanceId offer_accept = ''po1a2b''" "senderId offer_accept = ''alice''"
    "receiverId offer_accept = ''bob''"
    by (simp_all add: offer_accept_def)
  have inv: "inventory_of two_users ''alice'' = [row_entry]" "inventory_of two_users ''bob'' = []"
    "inventory_of two_users_drawn ''alice'' = [drawn_entry]" "inventory_of two_users_drawn ''bob'' = []"
    by (simp_all add: inventory_of_def two_users_def two_users_drawn_def empty_data_def)
  have fi: "findIndex (\<lambda>e. entryInstanceId e = Some (instanceId offer_accept))
        (inventory_of (sessions_loaded store_down offer_accept two_users) (senderId offer_accept)) = Some 0"
    by (simp add: sessions_loaded_two_users f inv row_entry_def entryInstanceId_def js_or_def)
  have fd: "findIndex (\<lambda>e. entryInstanceId e = Some (instanceId offer_accept))
        (inventory_of (sessions_loaded store_down offer_accept two_users_drawn) (senderId offer_accept)) = Some 0"
    by (simp add: sessions_loaded_two_users_drawn f inv drawn_entry_def entryInstanceId_def js_or_def)
  have raw: "card_id row_entry = Some ''c1''" "cardId row_entry = None" "obtained_at row_entry = Some 5"
    "instance_id row_entry = Some ''po1a2b''"
    "card_id drawn_entry = None" "cardId drawn_entry = Some ''c2''" "obtainedAt drawn_entry = Some 7"
    "instance_id drawn_entry = Some ''po1a2b''"
    by (simp_all add: row_entry_def drawn_entry_def)
  have A: "fst (trade_button store_down True 99 ''bob'' offer_accept two_users) = TradeCompleted
   \<and> card_id (last (inventory_of (fst (snd (trade_button store_down True 99 ''bob'' offer_accept two_users))) ''bob'')) = Some ''c1''
   \<and> cardId (last (inventory_of (fst (snd (trade_button store_down True 99 ''bob'' offer_accept two_users))) ''bob'')) = Some ''c1''
   \<and> instance_id (last (inventory_of (fst (snd (trade_button store_down True 99 ''bob'' offer_accept two_users))) ''bob'')) = Some ''po1a2b''
   \<and> obtained_at (last (inventory_of (fst (snd (trade_button store_down True 99 ''bob'' offer_accept two_users))) ''bob'')) = Some 99
   \<and> obtainedAt (last (inventory_of (fst (snd (trade_button store_down True 99 ''bob'' offer_accept two_users))) ''bob'')) = Some 99"
    using trade_accept_entry [OF a1 fi, of 99]
    by (simp add: Let_def sessions_loaded_two_users f inv raw)
  have B: "fst (trade_button store_down True 99 ''bob'' offer_accept two_users_drawn) = TradeCompleted
   \<and> card_id (last (inventory_of (fst (snd (trade_button store_down True 99 ''bob'' offer_accept two_users_drawn))) ''bob'')) = Some ''c2''
   \<and> cardId (last (inventory_of (fst (snd (trade_button store_down True 99 ''bob'' offer_accept two_users_drawn))) ''bob'')) = Some ''c2''
   \<and> instance_id (last (inventory_of (fst (snd (trade_button store_down True 99 ''bob'' offer_accept two_users_drawn))) ''bob'')) = Some ''po1a2b''
   \<and> obtained_at (last (inventory_of (fst (snd (trade_button store_down True 99 ''bob'' offer_accept two_users_drawn))) ''bob'')) = Some 99
   \<and> obtainedAt (last (inventory_of (fst (snd (trade_button store_down True 99 ''bob'' offer_accept two_users_drawn))) ''bob'')) = Some 99"
    using trade_accept_entry [OF a1 fd, of 99]
    by (simp add: Let_def sessions_loaded_two_users_drawn f inv raw)
  show ?thesis using a1 fi fd inv raw A B by simp
qed

text \<open>
  C5. A user other than the offer's receiver (the sender included) who pushes the accept
  or the decline button is turned away: the answer is that the trade is not for them (or,
  in a channel that is not allowed, that commands are not allowed). The receiver's session
  is untouched, every session in memory is left as it was, the only session that can
  appear in the cache is the pushing user's own, freshly loaded, and no write to the
  inventory table is issued.
\<close>

theorem trade_button_only_receiver:
  assumes other: "userId \<noteq> receiverId offer"
  shows "let res = trade_button db allowed now userId offer userData; ud' = fst (snd res)
         in (fst res = NotAllowedChannel \<or> fst res = NotForYou)
          \<and> ud' (receiverId offer) = userData (receiverId offer)
          \<and> (userId \<noteq> senderId offer \<longrightarrow> ud' (senderId offer) = userData (senderId offer))
          \<and> (\<forall>u data. userData u = Some data \<longrightarrow> ud' u = Some data)
          \<and> (\<forall>u. u \<noteq> userId \<longrightarrow> ud' u = userData u)
          \<and> set (snd (snd res)) \<subseteq> {InsertUser userId}"
proof (cases allowed)
  case False
  then show ?thesis by (simp add: trade_button_def)
next
  case True
  obtain d ud1 w1 where g1: "getUserData db userId userData = (d, ud1, w1)"
    by (cases "getUserData db userId userData") auto
  have res: "trade_button db allowed now userId offer userData = (NotForYou, ud1, w1)"
    using True other by (simp add: trade_button_def g1)
  note R = getUserData_result [OF g1]
  show ?thesis
    unfolding Let_def res using R other by auto
qed

theorem trade_button_only_receiver_witness:
  "''alice'' \<noteq> receiverId offer_accept
   \<and> trade_button store_down True 99 ''alice'' offer_accept two_users = (NotForYou, two_users, [])
   \<and> trade_button store_down True 99 ''alice'' (offer_accept\<lparr>action := decline\<rparr>) two_users
       = (NotForYou, two_users, [])"
proof -
  have ne: "''alice'' \<noteq> receiverId offer_accept"
    "''alice'' \<noteq> receiverId (offer_accept\<lparr>action := decline\<rparr>)"
    by (simp_all add: offer_accept_def)
  have c: "getUserData store_down ''alice'' two_users
             = (empty_data\<lparr>inventory := [row_entry]\<rparr>, two_users, [])"
    by (simp add: getUserData_def two_users_def)
  show ?thesis
    using trade_button_only_receiver [OF ne(1), of store_down True 99 two_users]
      trade_button_only_receiver [OF ne(2), of store_down True 99 two_users] ne
    by (simp add: trade_button_def c)
qed

end
